theory Spec2Isabelle
  imports Main "HOL-Library.Sublist"
begin

section \<open>JavaScript primitives used by the panel\<close>

text \<open>
  Numbers. The panel's numbers (\<open>remaining_seconds\<close>, the form's minutes and seconds,
  \<open>Date.now()\<close> in milliseconds, the reconnect delay) are integer-valued JavaScript
  numbers; they are modelled as \<open>int\<close> (as \<open>nat\<close> for the reconnect delay, which starts
  at 1000 and is only doubled and capped). A JavaScript number holds every integer up
  to \<open>2 ^ 53\<close> in magnitude exactly, and \<open>toString\<close> prints an integer below
  \<open>10 ^ 21\<close> in plain decimal; the model is of that range. \<open>Math.floor (a / b)\<close> for a positive
  \<open>b\<close> is \<open>a div b\<close>, which rounds towards minus infinity as \<open>Math.floor\<close> does.
  The remainder operator \<open>%\<close> takes the sign of the dividend:
\<close>

definition js_rem :: "int \<Rightarrow> int \<Rightarrow> int" where
  "js_rem a b = sgn a * (\<bar>a\<bar> mod \<bar>b\<bar>)"

text \<open>
  \<open>Number.prototype.toString\<close> on an integer: the decimal digits, most significant
  first, with a minus sign for a negative number.
\<close>

definition digit_char :: "nat \<Rightarrow> char" where
  "digit_char d = ''0123456789'' ! d"

fun digits :: "nat \<Rightarrow> string" where
  "digits n = (if n < 10 then [digit_char n] else digits (n div 10) @ [digit_char (n mod 10)])"

declare digits.simps [simp del]

definition toString :: "int \<Rightarrow> string" where
  "toString i = (if i < 0 then CHR ''-'' # digits (nat (- i)) else digits (nat i))"

text \<open>
  \<open>String.prototype.padStart (targetLength, padString)\<close>: a string that is already
  long enough, or an empty filler, gives the string back; otherwise the filler is
  repeated and cut to the missing length, and put in front.
\<close>

definition padStart :: "nat \<Rightarrow> string \<Rightarrow> string \<Rightarrow> string" where
  "padStart targetLength padString s =
     (if targetLength \<le> length s \<or> padString = [] then s
      else let fillLen = targetLength - length s
           in take fillLen (concat (replicate fillLen padString)) @ s)"

text \<open>
  Strings that the program inspects character by character (the name typed into the
  creation form, which \<open>trim\<close> reads) are lists of UTF-16 code units. Text that is only
  built, compared or passed along (rendered times, error messages) is a \<open>string\<close>.
\<close>

type_synonym ustring = "nat list"

text \<open>
  \<open>String.prototype.trim\<close> removes the WhiteSpace and LineTerminator code points of
  ECMAScript from both ends: TAB, LF, VT, FF, CR, SP, NBSP, U+1680, U+2000 to U+200A,
  U+2028, U+2029, U+202F, U+205F, U+3000 and U+FEFF.
\<close>

definition isWhiteSpace :: "nat \<Rightarrow> bool" where
  "isWhiteSpace u \<longleftrightarrow>
     u \<in> {9, 10, 11, 12, 13, 32, 160, 5760, 8232, 8233, 8239, 8287, 12288, 65279}
     \<or> (8192 \<le> u \<and> u \<le> 8202)"

definition trim :: "ustring \<Rightarrow> ustring" where
  "trim s = rev (dropWhile isWhiteSpace (rev (dropWhile isWhiteSpace s)))"


section \<open>The display formatter (formatTime, vite.config.ts lines 40 to 52)\<close>

text \<open>
  \<^verbatim>\<open>
  function formatTime(seconds: number): string {
    if (seconds <= 0) return "REFILL";
    if (seconds <= 60) { return `${seconds}`; }
    const mins = Math.floor(seconds / 60);
    const secs = seconds % 60;
    return `${mins.toString().padStart(2, "0")}:${secs.toString().padStart(2, "0")}`;
  }
  \<close>
\<close>

definition formatTime :: "int \<Rightarrow> string" where
  "formatTime seconds =
     (if seconds \<le> 0 then ''REFILL''
      else if seconds \<le> 60 then toString seconds
      else let mins = seconds div 60;
               secs = js_rem seconds 60
           in padStart 2 ''0'' (toString mins) @ '':'' @ padStart 2 ''0'' (toString secs))"

text \<open>
  The spec's words for the two shapes of a positive value: a bare decimal count, and
  a field of at least two decimal digits, padded with a zero on the left.
\<close>

definition two_digits :: "nat \<Rightarrow> string" where
  "two_digits n = (if n < 10 then CHR ''0'' # digits n else digits n)"

definition decimal_of :: "string \<Rightarrow> nat" where
  "decimal_of s = foldl (\<lambda>a c. 10 * a + (of_char c - 48)) 0 s"


section \<open>Timers (src/api.ts, lines 7 to 20)\<close>

text \<open>
  \<^verbatim>\<open>
  export interface Timer {
    id: string; name: string; remaining_seconds: number; total_seconds: number;
    status: 'active' | 'completed' | 'deleted'; discord_message_id?: string;
  }
  export interface TimerCreate { name: string; minutes: number; seconds: number; }
  \<close>
  The field \<open>id\<close> is written \<open>timer_id\<close> and the timer's \<open>name\<close> is written
  \<open>timer_name\<close>, since \<open>id\<close> is the identity function of HOL and \<open>name\<close> is
  also a field of \<open>TimerCreate\<close>.
\<close>

datatype status = Active | Completed | Deleted

record Timer =
  timer_id :: ustring
  timer_name :: ustring
  remaining_seconds :: int
  total_seconds :: int
  status :: status
  discord_message_id :: "ustring option"

record TimerCreate =
  name :: ustring
  minutes :: int
  seconds :: int


section \<open>The countdown of one card (TimerCard, vite.config.ts lines 54 to 167)\<close>

text \<open>
  One mounted \<open>TimerCard\<close>. \<open>props\<close> is the \<open>timer\<close> the card was last rendered
  with; React keeps from it the dependencies of the two effects,
  \<open>[timer.remaining_seconds]\<close> and \<open>[timer.status]\<close>, and runs an effect again only
  when its dependency differs from the one of the previous render. \<open>localRemaining\<close>
  is the state of \<open>useState\<close>, \<open>lastSyncTime\<close> and \<open>lastSyncRemaining\<close> are the two
  refs. \<open>countdown\<close> is the loop of the second effect: \<open>None\<close> when no animation
  frame is requested (the status is not active, or the frame was cancelled), and
  \<open>Some lastUpdate\<close> while \<open>updateCountdown\<close> reschedules itself, with the value of
  its closure variable \<open>lastUpdate\<close>.
\<close>

record card =
  props :: Timer
  localRemaining :: int
  lastSyncTime :: int
  lastSyncRemaining :: int
  countdown :: "int option"

text \<open>
  The first effect, at the time \<open>now\<close> that \<open>Date.now()\<close> returns:
  \<^verbatim>\<open>
  useEffect(() => {
    lastSyncTime.current = Date.now();
    lastSyncRemaining.current = timer.remaining_seconds;
    setLocalRemaining(timer.remaining_seconds);
  }, [timer.remaining_seconds]);
  \<close>
\<close>

definition sync :: "int \<Rightarrow> Timer \<Rightarrow> card \<Rightarrow> card" where
  "sync now timer c =
     c\<lparr>lastSyncTime := now,
       lastSyncRemaining := remaining_seconds timer,
       localRemaining := remaining_seconds timer\<rparr>"

text \<open>
  The body of the second effect (after the cleanup of its previous run, which cancels
  the requested frame): nothing is requested unless the status is active; otherwise
  \<open>lastUpdate = Date.now()\<close> and the first frame is requested.
\<close>

definition start_countdown :: "int \<Rightarrow> Timer \<Rightarrow> card \<Rightarrow> card" where
  "start_countdown now timer c =
     c\<lparr>countdown := (if status timer \<noteq> Active then None else Some now)\<rparr>"

text \<open>
  Mounting a card for \<open>timer\<close>: \<open>useState (timer.remaining_seconds)\<close>, the refs
  initialised, then both effects run. The initial value \<open>Date.now()\<close> of the ref
  \<open>lastSyncTime\<close> is overwritten by the first effect before anything reads it, so one
  time \<open>now\<close> stands for the mount.
\<close>

definition mount :: "int \<Rightarrow> Timer \<Rightarrow> card" where
  "mount now timer =
     start_countdown now timer
       (sync now timer
         \<lparr>props = timer, localRemaining = remaining_seconds timer, lastSyncTime = now,
          lastSyncRemaining = remaining_seconds timer, countdown = None\<rparr>)"

text \<open>
  A snapshot that still holds the timer renders the mounted card again with the new
  \<open>timer\<close>; each effect runs again only when its dependency changed.
\<close>

definition rerender :: "int \<Rightarrow> Timer \<Rightarrow> card \<Rightarrow> card" where
  "rerender now timer c =
     (let c1 = c\<lparr>props := timer\<rparr>;
          c2 = (if remaining_seconds timer \<noteq> remaining_seconds (props c)
                then sync now timer c1 else c1)
      in if status timer \<noteq> status (props c) then start_countdown now timer c2 else c2)"

text \<open>
  One animation frame at time \<open>now\<close>:
  \<^verbatim>\<open>
  const updateCountdown = () => {
    const now = Date.now();
    if (now - lastUpdate >= 250) {
      const elapsed = Math.floor((now - lastSyncTime.current) / 1000);
      const calculated = lastSyncRemaining.current - elapsed;
      if (calculated >= 0) { setLocalRemaining(calculated); } else { setLocalRemaining(0); }
      lastUpdate = now;
    }
    animationFrameRef.current = requestAnimationFrame(updateCountdown);
  };
  \<close>
  No frame runs while no countdown is requested.
\<close>

definition updateCountdown :: "int \<Rightarrow> card \<Rightarrow> card" where
  "updateCountdown now c =
     (case countdown c of
        None \<Rightarrow> c
      | Some lastUpdate \<Rightarrow>
          if now - lastUpdate \<ge> 250 then
            let elapsed = (now - lastSyncTime c) div 1000;
                calculated = lastSyncRemaining c - elapsed
            in (if calculated \<ge> 0 then c\<lparr>localRemaining := calculated\<rparr>
                else c\<lparr>localRemaining := 0\<rparr>)\<lparr>countdown := Some now\<rparr>
          else c)"

text \<open>Frames at the times of a list, in order.\<close>

fun frames :: "int list \<Rightarrow> card \<Rightarrow> card" where
  "frames [] c = c"
| "frames (now # rest) c = frames rest (updateCountdown now c)"

text \<open>What the card shows: \<open>{formatTime(localRemaining)}\<close>.\<close>

definition shown :: "card \<Rightarrow> string" where
  "shown c = formatTime (localRemaining c)"

text \<open>The timer of the spec's end-to-end example, with id \<open>"a"\<close>.\<close>

definition timer_a :: Timer where
  "timer_a = \<lparr>timer_id = [97], timer_name = [], remaining_seconds = 125,
              total_seconds = 125, status = Active, discord_message_id = None\<rparr>"


section \<open>The WebSocket client (WebSocketClient, vite.config.ts lines 458 to 530)\<close>

text \<open>
  An element of an array of JSON, as far as \<open>t.status === "active" || t.status ===
  "completed"\<close> tells elements apart: \<open>null\<close>, on which reading \<open>t.status\<close> throws; an
  object whose \<open>status\<close> is one of the three of the interface, taken as a \<open>Timer\<close>
  (nothing but \<open>status\<close> is read of it when the cards are chosen); or any other value
  (a number, a string, a boolean, an array, an object whose \<open>status\<close> is absent or
  something else), whose \<open>status\<close> equals neither string.
\<close>

datatype js_elem = ElemNull | ElemTimer Timer | ElemOther

text \<open>
  A value of JavaScript as far as the panel tells values apart: what the \<open>timers\<close>
  field of a parsed frame holds (\<open>JUndefined\<close> when the field is absent), and what
  the \<open>timers\<close> state of \<open>App\<close> holds after \<open>setTimers\<close>. \<open>JObject\<close> is any
  object that is not an array.
\<close>

datatype js_value =
  JUndefined | JNull | JBool bool | JNum int | JStr string | JObject | JArray "js_elem list"

text \<open>Truthiness, as \<open>&&\<close> tests it: arrays and objects are truthy, also when empty.\<close>

fun truthy :: "js_value \<Rightarrow> bool" where
  "truthy JUndefined = False"
| "truthy JNull = False"
| "truthy (JBool b) = b"
| "truthy (JNum n) = (n \<noteq> 0)"
| "truthy (JStr s) = (s \<noteq> [])"
| "truthy JObject = True"
| "truthy (JArray es) = True"

text \<open>
  \<open>JSON.parse (event.data)\<close>: a syntax error, the value \<open>null\<close> (reading
  \<open>data.type\<close> then throws), or a value with its \<open>type\<close> property (when that is a
  string) and its \<open>timers\<close> property.
\<close>

datatype frame = NotJson | NullFrame | Frame "string option" js_value

text \<open>
  \<^verbatim>\<open>
  export class WebSocketClient {
    private ws: WebSocket | null = null;
    private handlers: MessageHandler[] = [];
    private reconnectTimer: number | null = null;
    private reconnectDelay = 1000;
  \<close>
  \<open>ws\<close> records whether a socket is held. \<open>reconnectTimer\<close> is \<open>Some d\<close> while a
  timeout of \<open>d\<close> milliseconds is pending. A handler acts on the state \<open>'a\<close> of its
  owner.
\<close>

record 'a WebSocketClient =
  ws :: bool
  handlers :: "(js_value \<Rightarrow> 'a \<Rightarrow> 'a) list"
  reconnectTimer :: "nat option"
  reconnectDelay :: nat

definition new_client :: "'a WebSocketClient" where
  "new_client = \<lparr>ws = False, handlers = [], reconnectTimer = None, reconnectDelay = 1000\<rparr>"

text \<open>
  \<^verbatim>\<open>
  private scheduleReconnect() {
    if (this.reconnectTimer) { return; }
    this.reconnectTimer = window.setTimeout(() => { ... }, this.reconnectDelay);
  }
  \<close>
\<close>

definition scheduleReconnect :: "'a WebSocketClient \<Rightarrow> 'a WebSocketClient" where
  "scheduleReconnect c =
     (if reconnectTimer c \<noteq> None then c else c\<lparr>reconnectTimer := Some (reconnectDelay c)\<rparr>)"

text \<open>
  \<open>connect ()\<close>: \<open>constructed\<close> tells whether \<open>new WebSocket (wsUrl)\<close> returned; when
  it throws, the \<open>catch\<close> schedules a reconnect.
\<close>

definition connect :: "bool \<Rightarrow> 'a WebSocketClient \<Rightarrow> 'a WebSocketClient" where
  "connect constructed c = (if constructed then c\<lparr>ws := True\<rparr> else scheduleReconnect c)"

definition onopen :: "'a WebSocketClient \<Rightarrow> 'a WebSocketClient" where
  "onopen c = c\<lparr>reconnectDelay := 1000\<rparr>"

definition onclose :: "'a WebSocketClient \<Rightarrow> 'a WebSocketClient" where
  "onclose c = scheduleReconnect c"

text \<open>
  The callback of the timeout:
  \<^verbatim>\<open>
  this.reconnectTimer = null;
  this.reconnectDelay = Math.min(this.reconnectDelay * 2, 30000);
  this.connect();
  \<close>
\<close>

definition reconnect :: "bool \<Rightarrow> 'a WebSocketClient \<Rightarrow> 'a WebSocketClient" where
  "reconnect constructed c =
     connect constructed
       (c\<lparr>reconnectTimer := None, reconnectDelay := min (reconnectDelay c * 2) 30000\<rparr>)"

definition onMessage :: "(js_value \<Rightarrow> 'a \<Rightarrow> 'a) \<Rightarrow> 'a WebSocketClient \<Rightarrow> 'a WebSocketClient" where
  "onMessage handler c = c\<lparr>handlers := handlers c @ [handler]\<rparr>"

text \<open>
  \<^verbatim>\<open>
  this.ws.onmessage = (event) => {
    try {
      const data = JSON.parse(event.data);
      if (data.type === 'state_update' && data.timers) {
        this.handlers.forEach(handler => handler(data.timers));
      }
    } catch (error) { console.error(...); }
  };
  \<close>
  The handlers run in the order of their registration, on the owner's state \<open>st\<close>.
\<close>

definition onmessage :: "frame \<Rightarrow> 'a WebSocketClient \<Rightarrow> 'a \<Rightarrow> 'a" where
  "onmessage fr c st =
     (case fr of
        NotJson \<Rightarrow> st
      | NullFrame \<Rightarrow> st
      | Frame ty v \<Rightarrow>
          if ty = Some ''state_update'' \<and> truthy v
          then fold (\<lambda>handler. handler v) (handlers c) st
          else st)"

text \<open>
  What happens to the client from outside: the socket opens (\<open>onopen\<close>), the socket
  closes or fails to open (\<open>onclose\<close>; \<open>onerror\<close> only logs), or the pending timeout
  elapses and its callback runs, \<open>new WebSocket\<close> returning or throwing.
\<close>

datatype ws_event = Opened | Closed | TimerFired bool

fun step :: "ws_event \<Rightarrow> 'a WebSocketClient \<Rightarrow> 'a WebSocketClient" where
  "step Opened c = onopen c"
| "step Closed c = onclose c"
| "step (TimerFired constructed) c =
     (if reconnectTimer c = None then c else reconnect constructed c)"

text \<open>
  The delays of the timeouts that a run of events arms, in order: an event arms one
  when no timeout is pending before it and one is pending after it.
\<close>

fun delays :: "ws_event list \<Rightarrow> 'a WebSocketClient \<Rightarrow> nat list" where
  "delays [] c = []"
| "delays (e # es) c =
     (let c' = step e c
      in (if reconnectTimer c = None \<and> reconnectTimer c' \<noteq> None
          then [the (reconnectTimer c')] else []) @ delays es c')"

fun run :: "ws_event list \<Rightarrow> 'a WebSocketClient \<Rightarrow> 'a WebSocketClient" where
  "run [] c = c"
| "run (e # es) c = run es (step e c)"

text \<open>
  \<open>n\<close> immediate failures in a row: each attempt's socket closes without having
  opened, and the timeout that follows makes the next attempt.
\<close>

definition failures :: "nat \<Rightarrow> ws_event list" where
  "failures n = concat (replicate n [Closed, TimerFired True])"

text \<open>The spec's sequence: doubling from one second, capped at thirty.\<close>

definition backoff :: "nat \<Rightarrow> nat" where
  "backoff k = min (1000 * 2 ^ k) 30000"


section \<open>The request client (ApiClient, src/api.ts lines 22 to 81)\<close>

text \<open>
  The requests of the client, by method and path under \<open>BASE_URL\<close>:
  \<open>POST /timers\<close> with the draft as body, \<open>PATCH /timers/{id}\<close> with
  \<open>{adjust_seconds}\<close>, \<open>POST /timers/{id}/restart\<close> and \<open>DELETE /timers/{id}\<close>.
\<close>

datatype request =
  PostTimers TimerCreate
| PatchTimer ustring int
| PostRestart ustring
| DeleteTimer ustring

text \<open>
  What \<open>response.json ()\<close> gives: a rejection with the parser's message, the value
  \<open>null\<close>, or another value with its \<open>detail\<close> property: \<open>None\<close> when the property is
  absent, \<open>Some s\<close> when it is the string \<open>s\<close>.
\<close>

datatype json_body = NotJsonBody string | NullBody | JsonBody "string option"

record response =
  http_status :: nat
  body :: json_body

text \<open>\<open>response.ok\<close>: the status is in the range 200 to 299.\<close>

definition ok :: "response \<Rightarrow> bool" where
  "ok r \<longleftrightarrow> 200 \<le> http_status r \<and> http_status r \<le> 299"

text \<open>\<open>fetch\<close> rejects with an error of the platform, or resolves with a response.\<close>

datatype fetch_result = Rejected string | Resolved response

text \<open>
  A thrown value: \<open>new Error (msg)\<close> of the client's own, or an error of the platform
  (a failed \<open>fetch\<close>, a body that is not JSON, a property read on \<open>null\<close>) with its
  message.
\<close>

datatype exn = Error string | PlatformError string

fun message :: "exn \<Rightarrow> string" where
  "message (Error m) = m"
| "message (PlatformError m) = m"

definition null_detail_message :: string where
  "null_detail_message = ''Cannot read properties of null''"

text \<open>
  \<^verbatim>\<open>
  async createTimer(data: TimerCreate): Promise<Timer> {
    const response = await fetch(`${BASE_URL}/timers`, { method: 'POST', ... });
    if (!response.ok) {
      const error = await response.json();
      throw new Error(error.detail || 'Failed to create timer');
    }
    return response.json();
  }
  \<close>
  \<open>net\<close> is the network: the outcome of \<open>fetch\<close> for a request. Each operation
  returns the request it made and how its promise settles.
\<close>

definition createTimer ::
  "(request \<Rightarrow> fetch_result) \<Rightarrow> TimerCreate \<Rightarrow> request \<times> (exn + json_body)" where
  "createTimer net draft =
     (let req = PostTimers draft
      in (req,
          case net req of
            Rejected m \<Rightarrow> Inl (PlatformError m)
          | Resolved r \<Rightarrow>
              if \<not> ok r then
                (case body r of
                   NotJsonBody m \<Rightarrow> Inl (PlatformError m)
                 | NullBody \<Rightarrow> Inl (PlatformError null_detail_message)
                 | JsonBody None \<Rightarrow> Inl (Error ''Failed to create timer'')
                 | JsonBody (Some detail) \<Rightarrow>
                     Inl (Error (if detail \<noteq> [] then detail else ''Failed to create timer'')))
              else
                (case body r of
                   NotJsonBody m \<Rightarrow> Inl (PlatformError m)
                 | b \<Rightarrow> Inr b)))"

text \<open>
  \<^verbatim>\<open>
  async adjustTimer(id: string, adjustSeconds: number): Promise<void> {
    const response = await fetch(`${BASE_URL}/timers/${id}`, { method: 'PATCH', ... });
    if (!response.ok) { throw new Error('Failed to adjust timer'); }
  }
  \<close>
  and the same for \<open>restartTimer\<close> and \<open>deleteTimer\<close>, each with its own message.
\<close>

definition settle :: "string \<Rightarrow> fetch_result \<Rightarrow> exn + unit" where
  "settle generic res =
     (case res of
        Rejected m \<Rightarrow> Inl (PlatformError m)
      | Resolved r \<Rightarrow> if \<not> ok r then Inl (Error generic) else Inr ())"

definition adjustTimer ::
  "(request \<Rightarrow> fetch_result) \<Rightarrow> ustring \<Rightarrow> int \<Rightarrow> request \<times> (exn + unit)" where
  "adjustTimer net i adjustSeconds =
     (let req = PatchTimer i adjustSeconds in (req, settle ''Failed to adjust timer'' (net req)))"

definition restartTimer ::
  "(request \<Rightarrow> fetch_result) \<Rightarrow> ustring \<Rightarrow> request \<times> (exn + unit)" where
  "restartTimer net i =
     (let req = PostRestart i in (req, settle ''Failed to restart timer'' (net req)))"

definition deleteTimer ::
  "(request \<Rightarrow> fetch_result) \<Rightarrow> ustring \<Rightarrow> request \<times> (exn + unit)" where
  "deleteTimer net i =
     (let req = DeleteTimer i in (req, settle ''Failed to delete timer'' (net req)))"


section \<open>The view (App, vite.config.ts lines 169 to 351)\<close>

text \<open>
  \<^verbatim>\<open>
  const [timers, setTimers] = useState<Timer[]>([]);
  const [error, setError] = useState<string>("");
  const [formData, setFormData] = useState<TimerCreate>({ name: "", minutes: 5, seconds: 0 });
  \<close>
\<close>

record App =
  timers :: js_value
  error :: string
  formData :: TimerCreate

definition new_App :: App where
  "new_App = \<lparr>timers = JArray [], error = [],
              formData = \<lparr>name = [], minutes = 5, seconds = 0\<rparr>\<rparr>"

text \<open>The handler that \<open>App\<close> registers: \<open>(updatedTimers) => { setTimers(updatedTimers) }\<close>.\<close>

definition setTimers :: "js_value \<Rightarrow> App \<Rightarrow> App" where
  "setTimers updatedTimers a = a\<lparr>timers := updatedTimers\<rparr>"

text \<open>
  \<^verbatim>\<open>
  const displayTimers = Array.isArray(timers)
    ? timers.filter((t) => t.status === "active" || t.status === "completed")
    : [];
  \<close>
  One card is rendered for each element of \<open>displayTimers\<close>, in its order.
  \<open>Array.prototype.filter\<close> calls the callback on the elements in order; on a
  \<open>null\<close> element the callback throws a \<open>TypeError\<close>, and so does the render of
  \<open>App\<close>.
\<close>

definition null_status_message :: string where
  "null_status_message = ''Cannot read properties of null''"

fun keep_displayed :: "js_elem list \<Rightarrow> exn + Timer list" where
  "keep_displayed [] = Inr []"
| "keep_displayed (ElemNull # es) = Inl (PlatformError null_status_message)"
| "keep_displayed (ElemTimer t # es) =
     (case keep_displayed es of
        Inl e \<Rightarrow> Inl e
      | Inr ts \<Rightarrow> Inr (if status t = Active \<or> status t = Completed then t # ts else ts))"
| "keep_displayed (ElemOther # es) = keep_displayed es"

definition displayTimers :: "js_value \<Rightarrow> exn + Timer list" where
  "displayTimers v =
     (case v of
        JArray es \<Rightarrow> keep_displayed es
      | _ \<Rightarrow> Inr [])"

text \<open>The timers among the elements of an array, in its order.\<close>

fun timers_of :: "js_elem list \<Rightarrow> Timer list" where
  "timers_of [] = []"
| "timers_of (ElemTimer t # es) = t # timers_of es"
| "timers_of (e # es) = timers_of es"

text \<open>
  \<^verbatim>\<open>
  const handleCreate = async (e: React.FormEvent) => {
    e.preventDefault();
    if (!formData.name.trim()) { setError("Please enter timer name"); return; }
    if (formData.minutes === 0 && formData.seconds === 0) { setError("Time cannot be 0"); return; }
    try {
      await api.createTimer(formData);
      setFormData({ name: "", minutes: 5, seconds: 0 });
      setError("");
    } catch (err: any) { setError(err.message || "Failed to create timer"); }
  };
  \<close>
  The result is the state of \<open>App\<close> afterwards and the requests that were made.
\<close>

definition handleCreate :: "(request \<Rightarrow> fetch_result) \<Rightarrow> App \<Rightarrow> App \<times> request list" where
  "handleCreate net a =
     (if trim (name (formData a)) = [] then (a\<lparr>error := ''Please enter timer name''\<rparr>, [])
      else if minutes (formData a) = 0 \<and> seconds (formData a) = 0
      then (a\<lparr>error := ''Time cannot be 0''\<rparr>, [])
      else
        (case createTimer net (formData a) of
           (req, Inr created) \<Rightarrow>
             (a\<lparr>formData := \<lparr>name = [], minutes = 5, seconds = 0\<rparr>, error := []\<rparr>, [req])
         | (req, Inl err) \<Rightarrow>
             (a\<lparr>error := (if message err \<noteq> [] then message err
                           else ''Failed to create timer'')\<rparr>, [req])))"

text \<open>\<open>Array.isArray\<close> on such a value.\<close>

fun isArray :: "js_value \<Rightarrow> bool" where
  "isArray (JArray es) = True"
| "isArray v = False"


section \<open>Cards that the program can reach, and example inputs\<close>

text \<open>
  The states of a card: it is mounted by the first snapshot that shows its timer, and
  from then on snapshots render it again and animation frames run.
\<close>

inductive reachable :: "card \<Rightarrow> bool" where
  mounted: "reachable (mount now timer)"
| rerendered: "reachable c \<Longrightarrow> reachable (rerender now timer c)"
| frame: "reachable c \<Longrightarrow> reachable (updateCountdown now c)"

text \<open>A network that accepts every request, and one that answers 404 with a detail.\<close>

definition accepting :: "request \<Rightarrow> fetch_result" where
  "accepting req = Resolved \<lparr>http_status = 200, body = JsonBody None\<rparr>"

definition not_found :: "request \<Rightarrow> fetch_result" where
  "not_found req = Resolved \<lparr>http_status = 404, body = JsonBody (Some ''Timer not found'')\<rparr>"


section \<open>Properties of the primitives\<close>

lemma digits_small: "n < 10 \<Longrightarrow> digits n = [digit_char n]"
  by (subst digits.simps) simp

lemma digits_step: "10 \<le> n \<Longrightarrow> digits n = digits (n div 10) @ [digit_char (n mod 10)]"
  by (subst digits.simps) simp

lemma digit_char_value: "d < 10 \<Longrightarrow> of_char (digit_char d) = 48 + d"
proof -
  assume "d < 10"
  then have "d \<in> {0, 1, 2, 3, 4, 5, 6, 7, 8, 9}" by auto
  then show ?thesis by (auto simp: digit_char_def)
qed

lemma decimal_of_snoc: "decimal_of (s @ [c]) = 10 * decimal_of s + (of_char c - 48)"
  by (simp add: decimal_of_def)

lemma decimal_of_digits: "decimal_of (digits n) = n"
proof (induction n rule: digits.induct)
  case (1 n)
  show ?case
  proof (cases "n < 10")
    case True
    then show ?thesis
      by (simp add: digits_small decimal_of_def digit_char_value)
  next
    case False
    then have "decimal_of (digits (n div 10)) = n div 10"
      using "1.IH" by simp
    with False show ?thesis
      by (simp add: digits_step decimal_of_snoc digit_char_value)
  qed
qed

lemma length_digits_pos: "0 < length (digits n)"
  by (subst digits.simps) simp

lemma length_digits_two: "10 \<le> n \<Longrightarrow> 2 \<le> length (digits n)"
proof -
  assume "10 \<le> n"
  then have "length (digits n) = Suc (length (digits (n div 10)))"
    by (simp add: digits_step)
  with length_digits_pos [of "n div 10"] show ?thesis by linarith
qed

lemma length_digits_lt_100: "10 \<le> n \<Longrightarrow> n < 100 \<Longrightarrow> length (digits n) = 2"
  by (simp add: digits_step digits_small)

lemma padStart_two_digits: "padStart 2 ''0'' (digits n) = two_digits n"
proof (cases "n < 10")
  case True
  then show ?thesis
    by (simp add: padStart_def two_digits_def digits_small)
next
  case False
  then have "2 \<le> length (digits n)"
    by (simp add: length_digits_two)
  with False show ?thesis
    by (simp add: padStart_def two_digits_def)
qed

lemma js_rem_nonneg: "0 \<le> a \<Longrightarrow> 0 < b \<Longrightarrow> js_rem a b = a mod b"
  by (simp add: js_rem_def sgn_if)

lemma length_two_digits: "n < 100 \<Longrightarrow> length (two_digits n) = 2"
  by (cases "n < 10") (simp_all add: two_digits_def digits_small length_digits_lt_100)

lemma dropWhile_twice: "dropWhile P (dropWhile P xs) = dropWhile P xs"
  by (induction xs) auto

lemma trim_empty_iff: "trim s = [] \<longleftrightarrow> (\<forall>u \<in> set s. isWhiteSpace u)"
proof -
  have "trim s = [] \<longleftrightarrow> (\<forall>u \<in> set (dropWhile isWhiteSpace s). isWhiteSpace u)"
    by (simp add: trim_def dropWhile_eq_Nil_conv)
  also have "\<dots> \<longleftrightarrow> dropWhile isWhiteSpace (dropWhile isWhiteSpace s) = []"
    by (simp only: dropWhile_eq_Nil_conv)
  also have "\<dots> \<longleftrightarrow> (\<forall>u \<in> set s. isWhiteSpace u)"
    by (simp only: dropWhile_twice dropWhile_eq_Nil_conv)
  finally show ?thesis .
qed


section \<open>The formatter's policy\<close>

lemma formatTime_small: "0 < s \<Longrightarrow> s \<le> 60 \<Longrightarrow> formatTime s = digits (nat s)"
  by (simp add: formatTime_def toString_def)

lemma formatTime_large:
  assumes "60 < s"
  shows "formatTime s = two_digits (nat (s div 60)) @ '':'' @ two_digits (nat (s mod 60))"
proof -
  from assms have m: "\<not> s div 60 < 0" and r: "\<not> s mod 60 < 0" by simp_all
  from assms have "js_rem s 60 = s mod 60"
    by (simp add: js_rem_nonneg)
  with assms m r show ?thesis
    by (simp add: formatTime_def toString_def padStart_two_digits Let_def)
qed

lemma formatTime_examples:
  "formatTime 0 = ''REFILL''" "formatTime 45 = ''45''" "formatTime 60 = ''60''"
  "formatTime 61 = ''01:01''" "formatTime 125 = ''02:05''"
  by (simp_all add: formatTime_def toString_def js_rem_def padStart_def digits.simps
      digit_char_def)

text \<open>
  A value above 99 minutes keeps all the digits of its minutes: \<open>padStart\<close> pads and
  never cuts.
\<close>

lemma formatTime_6000: "formatTime 6000 = ''100:00''"
  by (simp add: formatTime_def toString_def js_rem_def padStart_def digits.simps
      digit_char_def)

text \<open>
  Claim C3. For every integer, \<open>formatTime\<close> returns the sentinel \<open>REFILL\<close> when the
  input is zero or below, the bare decimal integer when it is between 1 and 60
  (its digits, which read back as the input), and when it exceeds 60 the minutes and
  the seconds, each padded with a zero to two digits, with a colon between them. In
  particular 0 gives \<open>REFILL\<close>, 45 gives \<open>45\<close>, 60 gives \<open>60\<close>, 61 gives \<open>01:01\<close> and
  125 gives \<open>02:05\<close>.
\<close>

theorem formatTime_policy:
  "(s \<le> 0 \<longrightarrow> formatTime s = ''REFILL'') \<and>
   (0 < s \<and> s \<le> 60 \<longrightarrow>
      formatTime s = digits (nat s) \<and> decimal_of (formatTime s) = nat s) \<and>
   (60 < s \<longrightarrow>
      formatTime s = two_digits (nat (s div 60)) @ '':'' @ two_digits (nat (s mod 60))) \<and>
   formatTime 0 = ''REFILL'' \<and> formatTime 45 = ''45'' \<and> formatTime 60 = ''60'' \<and>
   formatTime 61 = ''01:01'' \<and> formatTime 125 = ''02:05''"
proof -
  have "s \<le> 0 \<longrightarrow> formatTime s = ''REFILL''"
    by (simp add: formatTime_def)
  moreover have "0 < s \<and> s \<le> 60 \<longrightarrow>
      formatTime s = digits (nat s) \<and> decimal_of (formatTime s) = nat s"
    by (simp add: formatTime_small decimal_of_digits)
  moreover have "60 < s \<longrightarrow>
      formatTime s = two_digits (nat (s div 60)) @ '':'' @ two_digits (nat (s mod 60))"
    by (simp add: formatTime_large)
  ultimately show ?thesis
    by (simp only: formatTime_examples simp_thms)
qed

theorem formatTime_policy_witness:
  "formatTime (- 3) = ''REFILL'' \<and> formatTime 7 = ''7'' \<and> formatTime 3599 = ''59:59''"
  using formatTime_policy [of "- 3"] formatTime_policy [of 7] formatTime_policy [of 3599]
  by (simp add: two_digits_def digits.simps digit_char_def)


section \<open>The countdown of a card\<close>

lemma formatTime_max: "formatTime (max 0 r) = formatTime r"
  by (simp add: formatTime_def max_def)

lemma updateCountdown_due:
  "countdown c = Some lastUpdate \<Longrightarrow> 250 \<le> now - lastUpdate \<Longrightarrow>
   updateCountdown now c =
     c\<lparr>localRemaining := max 0 (lastSyncRemaining c - (now - lastSyncTime c) div 1000),
       countdown := Some now\<rparr>"
  by (simp add: updateCountdown_def Let_def max_def)

lemma updateCountdown_not_due:
  "countdown c = Some lastUpdate \<Longrightarrow> now - lastUpdate < 250 \<Longrightarrow> updateCountdown now c = c"
  by (simp add: updateCountdown_def)

lemma updateCountdown_anchor:
  "lastSyncTime (updateCountdown now c) = lastSyncTime c"
  "lastSyncRemaining (updateCountdown now c) = lastSyncRemaining c"
  "props (updateCountdown now c) = props c"
  by (simp_all add: updateCountdown_def Let_def split: option.split)

lemma frames_anchor:
  "lastSyncTime (frames fs c) = lastSyncTime c \<and>
   lastSyncRemaining (frames fs c) = lastSyncRemaining c \<and>
   props (frames fs c) = props c"
  by (induction fs arbitrary: c) (simp_all add: updateCountdown_anchor)

lemma updateCountdown_countdown:
  "countdown c = Some lastUpdate \<Longrightarrow>
   countdown (updateCountdown now c) = Some lastUpdate \<or>
   countdown (updateCountdown now c) = Some now"
  by (simp add: updateCountdown_def Let_def)

text \<open>After any frames the loop still runs, and its last update was at one of them.\<close>

lemma frames_countdown:
  "countdown c = Some lastUpdate \<Longrightarrow>
   \<exists>lu. countdown (frames fs c) = Some lu \<and> (lu = lastUpdate \<or> lu \<in> set fs)"
proof (induction fs arbitrary: c lastUpdate)
  case Nil
  then show ?case by simp
next
  case (Cons f fs)
  from updateCountdown_countdown [OF Cons.prems, of f]
  obtain l where l: "countdown (updateCountdown f c) = Some l" "l = lastUpdate \<or> l = f"
    by auto
  from Cons.IH [OF l(1)] l(2) show ?case by auto
qed

lemma mount_simps:
  "props (mount now timer) = timer"
  "localRemaining (mount now timer) = remaining_seconds timer"
  "lastSyncTime (mount now timer) = now"
  "lastSyncRemaining (mount now timer) = remaining_seconds timer"
  "countdown (mount now timer) = (if status timer = Active then Some now else None)"
  by (simp_all add: mount_def sync_def start_countdown_def)

lemma rerender_props: "props (rerender now timer c) = timer"
  by (simp add: rerender_def sync_def start_countdown_def Let_def)

lemma rerender_changed:
  "remaining_seconds timer \<noteq> remaining_seconds (props c) \<Longrightarrow>
   localRemaining (rerender now timer c) = remaining_seconds timer \<and>
   lastSyncTime (rerender now timer c) = now \<and>
   lastSyncRemaining (rerender now timer c) = remaining_seconds timer"
  by (simp add: rerender_def sync_def start_countdown_def Let_def)

lemma rerender_unchanged:
  "remaining_seconds timer = remaining_seconds (props c) \<Longrightarrow>
   localRemaining (rerender now timer c) = localRemaining c \<and>
   lastSyncTime (rerender now timer c) = lastSyncTime c \<and>
   lastSyncRemaining (rerender now timer c) = lastSyncRemaining c"
  by (simp add: rerender_def sync_def start_countdown_def Let_def)

lemma rerender_same: "props c = timer \<Longrightarrow> rerender now timer c = c"
  by (simp add: rerender_def Let_def)

text \<open>
  On every card the program reaches, the anchor's \<open>lastSyncRemaining\<close> is the
  \<open>remaining_seconds\<close> of the timer last rendered, and the countdown loop runs exactly
  when that timer's status is active.
\<close>

lemma reachable_invariant:
  "reachable c \<Longrightarrow>
   lastSyncRemaining c = remaining_seconds (props c) \<and>
   (countdown c \<noteq> None \<longleftrightarrow> status (props c) = Active)"
proof (induction rule: reachable.induct)
  case (mounted now timer)
  show ?case by (simp add: mount_simps)
next
  case (rerendered c now timer)
  then show ?case
    by (simp add: rerender_def sync_def start_countdown_def Let_def)
next
  case (frame c now)
  then show ?case
    by (auto simp: updateCountdown_def Let_def split: option.splits)
qed

text \<open>
  A frame that comes less than 250 ms after the last update of the display leaves the
  display as it is: mounted at time 0 with 125 seconds, updated at 990 ms, the card
  still shows 125 at the frame of 1006 ms, and 124 at the frame of 1240 ms.
\<close>

lemma frame_within_250ms:
  "localRemaining (frames [990, 1006] (mount 0 timer_a)) = 125"
  "localRemaining (frames [990, 1006, 1240] (mount 0 timer_a)) = 124"
  by (simp_all add: updateCountdown_def mount_def sync_def start_countdown_def timer_a_def
      Let_def)

text \<open>
  Claim C1 as the spec states it fails on a frame that comes less than 250 ms after
  the last update of the display: the gate \<open>now - lastUpdate >= 250\<close> skips the
  computation. A card mounted at time 0 by a snapshot with 125 seconds, with a frame
  at 29952 ms (which updates the display to 96 seconds): the frame at 30000 ms, 30
  seconds after the snapshot, leaves 96 seconds on the card, which shows \<open>01:36\<close>,
  while the formula gives 95 seconds there.
\<close>

theorem tick_formula_counterexample:
  "status (props (frames [29952] (mount 0 timer_a))) = Active \<and>
   localRemaining (updateCountdown 30000 (frames [29952] (mount 0 timer_a))) \<noteq>
     max 0 (lastSyncRemaining (frames [29952] (mount 0 timer_a))
            - (30000 - lastSyncTime (frames [29952] (mount 0 timer_a))) div 1000) \<and>
   shown (updateCountdown 30000 (frames [29952] (mount 0 timer_a))) = ''01:36'' \<and>
   shown (updateCountdown 30000 (frames [29952] (mount 0 timer_a))) \<noteq> ''01:35''"
  by (simp add: updateCountdown_def mount_def sync_def start_countdown_def timer_a_def
      shown_def formatTime_def toString_def js_rem_def padStart_def digits.simps
      digit_char_def Let_def)

text \<open>
  Claim C1, as the code has it. On a card whose timer is active the countdown runs.
  There, a frame that comes 250 ms or more after the last update of the display sets
  the displayed value to \<open>max 0 (syncedRemaining - floor ((now - syncedAt) / 1000))\<close>,
  computed from the anchor, which the frame leaves as it is; a frame that comes
  earlier changes nothing. In particular a card mounted by a snapshot with 125 seconds
  shows \<open>02:05\<close> at once; whatever frames ran before, a frame in the second that
  starts 30 seconds after the snapshot and 250 ms or more after the last update shows
  \<open>01:35\<close>; and whatever frames ran, a snapshot with \<open>remaining_seconds\<close> 10 then
  shows \<open>10\<close> at once.
\<close>

theorem tick_formula:
  "(countdown c = Some lastUpdate \<and> 250 \<le> now - lastUpdate \<longrightarrow>
      localRemaining (updateCountdown now c) =
        max 0 (lastSyncRemaining c - (now - lastSyncTime c) div 1000) \<and>
      lastSyncTime (updateCountdown now c) = lastSyncTime c \<and>
      lastSyncRemaining (updateCountdown now c) = lastSyncRemaining c) \<and>
   (countdown c = Some lastUpdate \<and> now - lastUpdate < 250 \<longrightarrow> updateCountdown now c = c) \<and>
   (reachable c \<and> status (props c) = Active \<longrightarrow> (\<exists>lu. countdown c = Some lu)) \<and>
   (remaining_seconds timer = 125 \<longrightarrow> shown (mount t0 timer) = ''02:05'') \<and>
   (remaining_seconds timer = 125 \<and> t0 + 30000 \<le> T \<and> T < t0 + 31000 \<and>
    countdown (frames fs (mount t0 timer)) = Some lu \<and> 250 \<le> T - lu \<longrightarrow>
      shown (updateCountdown T (frames fs (mount t0 timer))) = ''01:35'') \<and>
   (remaining_seconds timer = 125 \<longrightarrow>
      shown (rerender t1 (timer\<lparr>remaining_seconds := 10\<rparr>) (frames gs (mount t0 timer))) = ''10'')"
proof -
  have general: "countdown c = Some lastUpdate \<and> 250 \<le> now - lastUpdate \<longrightarrow>
      localRemaining (updateCountdown now c) =
        max 0 (lastSyncRemaining c - (now - lastSyncTime c) div 1000) \<and>
      lastSyncTime (updateCountdown now c) = lastSyncTime c \<and>
      lastSyncRemaining (updateCountdown now c) = lastSyncRemaining c"
    by (simp add: updateCountdown_due)
  have early: "countdown c = Some lastUpdate \<and> now - lastUpdate < 250 \<longrightarrow>
      updateCountdown now c = c"
    by (simp add: updateCountdown_not_due)
  have running: "reachable c \<and> status (props c) = Active \<longrightarrow> (\<exists>lu. countdown c = Some lu)"
    using reachable_invariant [of c] by auto
  have first: "shown (mount t0 timer) = ''02:05''" if r: "remaining_seconds timer = 125"
    by (simp add: shown_def mount_simps r formatTime_examples)
  have second: "shown (updateCountdown T (frames fs (mount t0 timer))) = ''01:35''"
    if r: "remaining_seconds timer = 125"
      and T: "t0 + 30000 \<le> T" "T < t0 + 31000"
      and lu: "countdown (frames fs (mount t0 timer)) = Some lu" and due: "250 \<le> T - lu"
  proof -
    let ?c = "frames fs (mount t0 timer)"
    have anchor: "lastSyncTime ?c = t0" "lastSyncRemaining ?c = 125"
      by (simp_all add: frames_anchor mount_simps r)
    define x where "x = T - t0 - 30000"
    with T have x: "0 \<le> x" "x < 1000" "T - t0 = 30 * 1000 + x"
      by simp_all
    have "(30 * 1000 + x) div 1000 = 30 + x div 1000"
      by (rule div_mult_self3) simp
    with x have elapsed: "(T - t0) div 1000 = 30"
      by (simp add: div_pos_pos_trivial)
    have "localRemaining (updateCountdown T ?c) = 95"
      by (simp add: updateCountdown_due [OF lu due] anchor elapsed)
    then show ?thesis
      by (simp add: shown_def formatTime_def toString_def js_rem_def padStart_def
          digits.simps digit_char_def)
  qed
  have third: "shown (rerender t1 (timer\<lparr>remaining_seconds := 10\<rparr>) (frames gs (mount t0 timer)))
      = ''10''" if r: "remaining_seconds timer = 125"
  proof -
    let ?d = "frames gs (mount t0 timer)"
    have "props ?d = timer"
      by (simp add: frames_anchor mount_simps)
    then have "remaining_seconds (timer\<lparr>remaining_seconds := 10\<rparr>) \<noteq> remaining_seconds (props ?d)"
      by (simp add: r)
    from rerender_changed [OF this, of t1]
    have "localRemaining (rerender t1 (timer\<lparr>remaining_seconds := 10\<rparr>) ?d) = 10"
      by simp
    then show ?thesis
      by (simp add: shown_def formatTime_def toString_def digits.simps digit_char_def)
  qed
  from general early running first second third show ?thesis by blast
qed

theorem tick_formula_witness:
  "localRemaining (updateCountdown 30000 (mount 0 timer_a)) = 95 \<and>
   updateCountdown 200 (mount 0 timer_a) = mount 0 timer_a \<and>
   countdown (mount 0 timer_a) = Some 0 \<and>
   shown (mount 0 timer_a) = ''02:05'' \<and>
   countdown (frames [16, 256, 29952] (mount 0 timer_a)) = Some 29952 \<and>
   shown (updateCountdown 30208 (frames [16, 256, 29952] (mount 0 timer_a))) = ''01:35'' \<and>
   shown (rerender 30300 (timer_a\<lparr>remaining_seconds := 10\<rparr>)
            (frames [16, 256, 29952, 30208] (mount 0 timer_a))) = ''10''"
proof -
  have cd: "countdown (frames [16, 256, 29952] (mount 0 timer_a)) = Some 29952"
    by (simp add: updateCountdown_def mount_def sync_def start_countdown_def timer_a_def
        Let_def)
  have r: "remaining_seconds timer_a = 125" and a: "status (props (mount 0 timer_a)) = Active"
    by (simp_all add: timer_a_def mount_simps)
  from tick_formula [of "mount 0 timer_a" 0 30000 timer_a 0 30208 "[16, 256, 29952]" 29952
      30300 "[16, 256, 29952, 30208]"]
    tick_formula [of "mount 0 timer_a" 0 200 timer_a 0 30208 "[16, 256, 29952]" 29952
      30300 "[16, 256, 29952, 30208]"]
    cd r a reachable.mounted [of 0 timer_a]
  show ?thesis
    by (simp add: mount_simps)
qed

text \<open>
  Claim C2 as the spec states it fails on a snapshot that repeats the
  \<open>remaining_seconds\<close> of the previous one: the first effect does not run, and the
  card keeps what the local countdown shows. Mounted at time 0 by a snapshot with 125
  seconds, the card shows 95 seconds (\<open>01:35\<close>) after the frame of 30000 ms; a snapshot
  with 125 seconds again leaves it there.
\<close>

theorem snapshot_display_counterexample:
  "localRemaining (rerender 30000 timer_a (updateCountdown 30000 (mount 0 timer_a)))
     \<noteq> max 0 (remaining_seconds timer_a) \<and>
   shown (rerender 30000 timer_a (updateCountdown 30000 (mount 0 timer_a)))
     \<noteq> formatTime (max 0 (remaining_seconds timer_a))"
  by (simp add: rerender_def updateCountdown_def mount_def sync_def start_countdown_def
      timer_a_def shown_def formatTime_def toString_def js_rem_def padStart_def
      digits.simps digit_char_def Let_def)

text \<open>
  Claim C2, as the code has it. For every snapshot \<open>S\<close> whose \<open>remaining_seconds\<close>
  differs from the one the card was last rendered with, and for the snapshot that
  mounts the card, the card holds \<open>S.remaining_seconds\<close> right after the
  reconciliation and shows what \<open>max 0 S.remaining_seconds\<close> is rendered as; so a
  negative value shows the sentinel of zero. A snapshot that repeats the
  \<open>remaining_seconds\<close> the card was last rendered with leaves the value the card holds,
  and what it shows, as they were.
\<close>

theorem snapshot_display:
  "(remaining_seconds S \<noteq> remaining_seconds (props c) \<longrightarrow>
      localRemaining (rerender now S c) = remaining_seconds S \<and>
      shown (rerender now S c) = formatTime (max 0 (remaining_seconds S))) \<and>
   (remaining_seconds S = remaining_seconds (props c) \<longrightarrow>
      localRemaining (rerender now S c) = localRemaining c \<and>
      shown (rerender now S c) = shown c) \<and>
   localRemaining (mount now S) = remaining_seconds S \<and>
   shown (mount now S) = formatTime (max 0 (remaining_seconds S))"
  by (simp add: rerender_changed rerender_unchanged mount_simps shown_def formatTime_max)

theorem snapshot_display_witness:
  "shown (rerender 7000 (timer_a\<lparr>remaining_seconds := - 4\<rparr>) (mount 0 timer_a)) = ''REFILL'' \<and>
   localRemaining (rerender 7000 (timer_a\<lparr>remaining_seconds := - 4\<rparr>) (mount 0 timer_a)) = - 4 \<and>
   shown (rerender 7000 (timer_a\<lparr>remaining_seconds := 61\<rparr>) (mount 0 timer_a)) = ''01:01'' \<and>
   localRemaining (rerender 30000 timer_a (updateCountdown 30000 (mount 0 timer_a))) = 95 \<and>
   shown (rerender 30000 timer_a (updateCountdown 30000 (mount 0 timer_a))) = ''01:35''"
proof -
  have tick: "localRemaining (updateCountdown 30000 (mount 0 timer_a)) = 95"
    "shown (updateCountdown 30000 (mount 0 timer_a)) = ''01:35''"
    "props (updateCountdown 30000 (mount 0 timer_a)) = timer_a"
    by (simp_all add: updateCountdown_def mount_def sync_def start_countdown_def timer_a_def
        shown_def formatTime_def toString_def js_rem_def padStart_def digits.simps
        digit_char_def Let_def)
  from snapshot_display [of "timer_a\<lparr>remaining_seconds := - 4\<rparr>" "mount 0 timer_a" 7000]
    snapshot_display [of "timer_a\<lparr>remaining_seconds := 61\<rparr>" "mount 0 timer_a" 7000]
    snapshot_display [of timer_a "updateCountdown 30000 (mount 0 timer_a)" 30000] tick
  show ?thesis
    by (simp add: mount_simps timer_a_def formatTime_examples)
qed

text \<open>
  Claim C5 as the spec states it fails on a snapshot whose \<open>remaining_seconds\<close> equals
  the previous one: the effect that writes the anchor depends on
  \<open>[timer.remaining_seconds]\<close> and does not run, so \<open>lastSyncTime\<close> stays at the time
  of the earlier snapshot.
\<close>

theorem anchor_overwrite_counterexample:
  "lastSyncTime (rerender 5000 timer_a (mount 0 timer_a)) \<noteq> 5000"
  by (simp add: rerender_def mount_def sync_def start_countdown_def Let_def)

text \<open>
  Claim C5, as the code has it. The anchor is overwritten (\<open>lastSyncTime\<close> set to the
  current local time, \<open>lastSyncRemaining\<close> to the snapshot's \<open>remaining_seconds\<close>)
  when the card is mounted and on every snapshot whose \<open>remaining_seconds\<close> differs
  from the one the card was last rendered with. A snapshot with the same
  \<open>remaining_seconds\<close> leaves \<open>lastSyncTime\<close> as it was. After every snapshot
  \<open>lastSyncRemaining\<close> is the snapshot's \<open>remaining_seconds\<close>.
\<close>

theorem anchor_overwrite:
  "(remaining_seconds S \<noteq> remaining_seconds (props c) \<longrightarrow>
      lastSyncTime (rerender now S c) = now \<and>
      lastSyncRemaining (rerender now S c) = remaining_seconds S) \<and>
   (remaining_seconds S = remaining_seconds (props c) \<longrightarrow>
      lastSyncTime (rerender now S c) = lastSyncTime c) \<and>
   (reachable c \<longrightarrow> lastSyncRemaining (rerender now S c) = remaining_seconds S) \<and>
   lastSyncTime (mount now S) = now \<and> lastSyncRemaining (mount now S) = remaining_seconds S"
proof -
  have "lastSyncRemaining (rerender now S c) = remaining_seconds S" if "reachable c"
    using reachable_invariant [OF reachable.rerendered [OF that, of now S]]
    by (simp add: rerender_props)
  then show ?thesis
    by (simp add: rerender_changed rerender_unchanged mount_simps)
qed

theorem anchor_overwrite_witness:
  "lastSyncTime (rerender 5000 (timer_a\<lparr>remaining_seconds := 120\<rparr>) (mount 0 timer_a)) = 5000 \<and>
   lastSyncRemaining (rerender 5000 (timer_a\<lparr>remaining_seconds := 120\<rparr>) (mount 0 timer_a)) = 120 \<and>
   lastSyncTime (rerender 5000 timer_a (mount 0 timer_a)) = 0 \<and>
   lastSyncRemaining (rerender 5000 timer_a (mount 0 timer_a)) = 125"
  using anchor_overwrite [of "timer_a\<lparr>remaining_seconds := 120\<rparr>" "mount 0 timer_a" 5000]
    anchor_overwrite [of timer_a "mount 0 timer_a" 5000] reachable.mounted [of 0 timer_a]
  by (simp add: mount_simps timer_a_def)

text \<open>
  Claim C6. A snapshot that repeats the one before it changes nothing on the card:
  after a snapshot \<open>S\<close> (on a mounted card, or mounting it) and any frames, the same
  \<open>S\<close> once more leaves the card's state as it is, so what is shown then and after any
  further frames is what would be shown had the second \<open>S\<close> not arrived.
\<close>

theorem duplicate_snapshot:
  "rerender now2 S (frames fs (rerender now1 S c)) = frames fs (rerender now1 S c) \<and>
   rerender now2 S (frames fs (mount now1 S)) = frames fs (mount now1 S) \<and>
   shown (frames gs (rerender now2 S (frames fs (rerender now1 S c)))) =
     shown (frames gs (frames fs (rerender now1 S c)))"
proof -
  have a: "rerender now2 S (frames fs (rerender now1 S c)) = frames fs (rerender now1 S c)"
    by (rule rerender_same) (simp add: frames_anchor rerender_props)
  have b: "rerender now2 S (frames fs (mount now1 S)) = frames fs (mount now1 S)"
    by (rule rerender_same) (simp add: frames_anchor mount_simps)
  from a b show ?thesis by simp
qed

theorem duplicate_snapshot_witness:
  "shown (rerender 31000 timer_a (frames [30000] (rerender 0 timer_a (mount 0 timer_a)))) =
     ''01:35''"
  using duplicate_snapshot [of 31000 timer_a "[30000]" 0 "mount 0 timer_a" "[]"]
  by (simp add: mount_def rerender_def updateCountdown_def sync_def start_countdown_def
      timer_a_def shown_def formatTime_def toString_def js_rem_def padStart_def
      digits.simps digit_char_def Let_def)


section \<open>The reconnect backoff\<close>

lemma failures_Suc: "failures (Suc n) = Closed # TimerFired True # failures n"
  by (simp add: failures_def)

lemma backoff_Suc: "min (backoff j * 2) 30000 = backoff (Suc j)"
  by (simp add: backoff_def min_def)

lemma backoff_capped: "5 \<le> k \<Longrightarrow> backoff k = 30000"
proof -
  assume "5 \<le> k"
  then have "(2::nat) ^ 5 \<le> 2 ^ k"
    by (intro power_increasing) simp_all
  then show ?thesis
    by (simp add: backoff_def min_def)
qed

lemma backoff_first: "map backoff [0..<7] = [1000, 2000, 4000, 8000, 16000, 30000, 30000]"
  by (simp add: backoff_def upt_conv_Cons)

text \<open>
  One failure with no timeout pending: the close arms a timeout of the current delay,
  and when it fires the delay is doubled up to the cap and a new socket is made.
\<close>

lemma failure_cycle:
  assumes "reconnectTimer c = None"
  shows "delays (Closed # TimerFired True # es) c =
           reconnectDelay c # delays es (step (TimerFired True) (step Closed c))"
    and "reconnectTimer (step (TimerFired True) (step Closed c)) = None"
    and "reconnectDelay (step (TimerFired True) (step Closed c)) =
           min (reconnectDelay c * 2) 30000"
  using assms
  by (simp_all add: onclose_def scheduleReconnect_def reconnect_def connect_def Let_def)

lemma delays_failures:
  "reconnectTimer c = None \<Longrightarrow> reconnectDelay c = backoff j \<Longrightarrow>
   delays (failures n) c = map (\<lambda>k. backoff (j + k)) [0..<n]"
proof (induction n arbitrary: c j)
  case 0
  show ?case by (simp add: failures_def)
next
  case (Suc n)
  let ?c' = "step (TimerFired True) (step Closed c)"
  have t: "reconnectTimer ?c' = None"
    by (rule failure_cycle(2) [OF Suc.prems(1)])
  have d: "reconnectDelay ?c' = backoff (Suc j)"
    by (simp only: failure_cycle(3) [OF Suc.prems(1)] Suc.prems(2) backoff_Suc)
  have "delays (failures (Suc n)) c = backoff j # delays (failures n) ?c'"
    by (simp only: failures_Suc failure_cycle(1) [OF Suc.prems(1)] Suc.prems(2))
  also have "\<dots> = backoff j # map (\<lambda>k. backoff (Suc j + k)) [0..<n]"
    by (simp only: Suc.IH [OF t d])
  also have "\<dots> = map (\<lambda>k. backoff (j + k)) [0..<Suc n]"
    by (simp add: upt_conv_Cons map_Suc_upt [symmetric] del: upt_Suc)
  finally show ?case .
qed

lemma run_failures:
  "reconnectTimer c = None \<Longrightarrow> reconnectTimer (run (failures n) c) = None"
proof (induction n arbitrary: c)
  case 0
  then show ?case by (simp add: failures_def)
next
  case (Suc n)
  from Suc.IH [OF failure_cycle(2) [OF Suc.prems]] show ?case
    by (simp add: failures_Suc)
qed

lemma delays_append: "delays (es @ fs) c = delays es c @ delays fs (run es c)"
  by (induction es arbitrary: c) (simp_all add: Let_def)

lemma open_then_close:
  "reconnectTimer c = None \<Longrightarrow> delays [Opened, Closed] c = [1000]"
  by (simp add: onopen_def onclose_def scheduleReconnect_def Let_def)

lemma first_client:
  "reconnectTimer (connect True new_client) = None"
  "reconnectDelay (connect True new_client) = backoff 0"
  by (simp_all add: connect_def new_client_def backoff_def)

text \<open>
  Claim C4. After \<open>connect ()\<close> on a new client, \<open>n\<close> immediate failures in a row arm
  the timeouts \<open>min (1000 * 2 ^ k) 30000\<close> for \<open>k = 0, ..., n - 1\<close>, for every \<open>n\<close>
  (there is no retry limit): 1 s, 2 s, 4 s, 8 s, 16 s, 30 s, 30 s, and 30 s from the
  sixth on. When the socket then opens once and closes, the next timeout is of 1 s.
\<close>

theorem reconnect_backoff:
  "delays (failures n) (connect True (new_client :: 'a WebSocketClient)) = map backoff [0..<n] \<and>
   map backoff [0..<7] = [1000, 2000, 4000, 8000, 16000, 30000, 30000] \<and>
   (5 \<le> k \<longrightarrow> backoff k = 30000) \<and>
   delays (failures n @ [Opened, Closed]) (connect True (new_client :: 'a WebSocketClient)) =
     map backoff [0..<n] @ [1000]"
proof -
  have a: "delays (failures n) (connect True (new_client :: 'a WebSocketClient)) =
      map backoff [0..<n]"
    using delays_failures [OF first_client, of n] by simp
  have "reconnectTimer (run (failures n) (connect True (new_client :: 'a WebSocketClient))) =
      None"
    by (rule run_failures [OF first_client(1)])
  then have "delays [Opened, Closed]
      (run (failures n) (connect True (new_client :: 'a WebSocketClient))) = [1000]"
    by (rule open_then_close)
  with a have b: "delays (failures n @ [Opened, Closed])
      (connect True (new_client :: 'a WebSocketClient)) = map backoff [0..<n] @ [1000]"
    by (simp only: delays_append)
  from a b backoff_first backoff_capped show ?thesis by blast
qed

theorem reconnect_backoff_witness:
  "delays (failures 7) (connect True (new_client :: App WebSocketClient)) =
     [1000, 2000, 4000, 8000, 16000, 30000, 30000] \<and>
   backoff 9 = 30000 \<and>
   delays (failures 7 @ [Opened, Closed]) (connect True (new_client :: App WebSocketClient)) =
     [1000, 2000, 4000, 8000, 16000, 30000, 30000, 1000]"
  using reconnect_backoff [where 'a = App, of 7 9] by simp


section \<open>The creation form\<close>

lemma handleCreate_rejected:
  assumes "trim (name (formData a)) = [] \<or> (minutes (formData a) = 0 \<and> seconds (formData a) = 0)"
  shows "handleCreate net a =
           (a\<lparr>error := (if trim (name (formData a)) = [] then ''Please enter timer name''
                          else ''Time cannot be 0'')\<rparr>, [])"
  using assms by (auto simp: handleCreate_def)

text \<open>A draft that passes both checks makes exactly the one request.\<close>

lemma handleCreate_accepted:
  assumes "trim (name (formData a)) \<noteq> []"
    and "\<not> (minutes (formData a) = 0 \<and> seconds (formData a) = 0)"
  shows "snd (handleCreate net a) = [PostTimers (formData a)]"
  using assms
  by (simp add: handleCreate_def createTimer_def Let_def split: sum.split prod.split)

text \<open>
  Claim C7. Submitting the form with a name that is empty or holds only white space,
  or with minutes 0 and seconds 0, makes no request, whatever the network would
  answer; the form's draft (and the list of timers) is left as it was, and an error
  message is set: \<open>Please enter timer name\<close> for the name, \<open>Time cannot be 0\<close>
  otherwise.
\<close>

theorem create_rejected_locally:
  "(\<forall>u \<in> set (name (formData a)). isWhiteSpace u) \<or>
   (minutes (formData a) = 0 \<and> seconds (formData a) = 0) \<longrightarrow>
     snd (handleCreate net a) = [] \<and>
     formData (fst (handleCreate net a)) = formData a \<and>
     timers (fst (handleCreate net a)) = timers a \<and>
     error (fst (handleCreate net a)) \<noteq> [] \<and>
     error (fst (handleCreate net a)) =
       (if \<forall>u \<in> set (name (formData a)). isWhiteSpace u then ''Please enter timer name''
        else ''Time cannot be 0'')"
proof
  assume "(\<forall>u \<in> set (name (formData a)). isWhiteSpace u) \<or>
    (minutes (formData a) = 0 \<and> seconds (formData a) = 0)"
  then have "trim (name (formData a)) = [] \<or>
    (minutes (formData a) = 0 \<and> seconds (formData a) = 0)"
    by (simp only: trim_empty_iff)
  from handleCreate_rejected [OF this, of net]
  show "snd (handleCreate net a) = [] \<and>
     formData (fst (handleCreate net a)) = formData a \<and>
     timers (fst (handleCreate net a)) = timers a \<and>
     error (fst (handleCreate net a)) \<noteq> [] \<and>
     error (fst (handleCreate net a)) =
       (if \<forall>u \<in> set (name (formData a)). isWhiteSpace u then ''Please enter timer name''
        else ''Time cannot be 0'')"
    by (simp add: trim_empty_iff)
qed

theorem create_rejected_locally_witness:
  "handleCreate accepting (new_App\<lparr>formData := \<lparr>name = [32, 9], minutes = 5, seconds = 0\<rparr>\<rparr>) =
     (new_App\<lparr>formData := \<lparr>name = [32, 9], minutes = 5, seconds = 0\<rparr>,
              error := ''Please enter timer name''\<rparr>, []) \<and>
   handleCreate accepting (new_App\<lparr>formData := \<lparr>name = [65], minutes = 0, seconds = 0\<rparr>\<rparr>) =
     (new_App\<lparr>formData := \<lparr>name = [65], minutes = 0, seconds = 0\<rparr>,
              error := ''Time cannot be 0''\<rparr>, [])"
  using create_rejected_locally
      [of "new_App\<lparr>formData := \<lparr>name = [32, 9], minutes = 5, seconds = 0\<rparr>\<rparr>" accepting]
    create_rejected_locally
      [of "new_App\<lparr>formData := \<lparr>name = [65], minutes = 0, seconds = 0\<rparr>\<rparr>" accepting]
  by (simp add: new_App_def isWhiteSpace_def prod_eq_iff)


section \<open>Responses that are not 2xx\<close>

text \<open>
  Claim C8 as the spec states it fails for three of the four operations:
  \<open>adjustTimer\<close>, \<open>restartTimer\<close> and \<open>deleteTimer\<close> never read the body of the
  response. To a 404 whose body is \<open>{"detail": "Timer not found"}\<close> each of them
  answers with its own fixed message, not with the server's.
\<close>

theorem server_message_counterexample:
  "snd (adjustTimer not_found [97] 1) \<noteq> Inl (Error ''Timer not found'') \<and>
   snd (restartTimer not_found [97]) \<noteq> Inl (Error ''Timer not found'') \<and>
   snd (deleteTimer not_found [97]) \<noteq> Inl (Error ''Timer not found'')"
  by (simp add: adjustTimer_def restartTimer_def deleteTimer_def settle_def not_found_def
      ok_def Let_def)

text \<open>
  Claim C8, as the code has it. A response that is not 2xx makes each of the four
  operations fail, after its one request. \<open>createTimer\<close> fails with the \<open>detail\<close> of
  the server's JSON body when it has a non-empty one, and with
  \<open>Failed to create timer\<close> when the body is a JSON value without one; \<open>adjustTimer\<close>,
  \<open>restartTimer\<close> and \<open>deleteTimer\<close> fail with their own fixed message, whatever the
  body is.
\<close>

theorem non_2xx_fails:
  "(net (PostTimers draft) = Resolved r \<and> \<not> ok r \<longrightarrow>
      fst (createTimer net draft) = PostTimers draft \<and>
      isl (snd (createTimer net draft)) \<and>
      (body r = JsonBody (Some detail) \<and> detail \<noteq> [] \<longrightarrow>
         snd (createTimer net draft) = Inl (Error detail)) \<and>
      (body r = JsonBody (Some []) \<or> body r = JsonBody None \<longrightarrow>
         snd (createTimer net draft) = Inl (Error ''Failed to create timer''))) \<and>
   (net (PatchTimer i n) = Resolved r \<and> \<not> ok r \<longrightarrow>
      adjustTimer net i n = (PatchTimer i n, Inl (Error ''Failed to adjust timer''))) \<and>
   (net (PostRestart i) = Resolved r \<and> \<not> ok r \<longrightarrow>
      restartTimer net i = (PostRestart i, Inl (Error ''Failed to restart timer''))) \<and>
   (net (DeleteTimer i) = Resolved r \<and> \<not> ok r \<longrightarrow>
      deleteTimer net i = (DeleteTimer i, Inl (Error ''Failed to delete timer'')))"
proof -
  have "net (PostTimers draft) = Resolved r \<and> \<not> ok r \<longrightarrow>
      fst (createTimer net draft) = PostTimers draft \<and>
      isl (snd (createTimer net draft)) \<and>
      (body r = JsonBody (Some detail) \<and> detail \<noteq> [] \<longrightarrow>
         snd (createTimer net draft) = Inl (Error detail)) \<and>
      (body r = JsonBody (Some []) \<or> body r = JsonBody None \<longrightarrow>
         snd (createTimer net draft) = Inl (Error ''Failed to create timer''))"
    by (auto simp: createTimer_def Let_def split: json_body.split option.split)
  moreover have "net (PatchTimer i n) = Resolved r \<and> \<not> ok r \<longrightarrow>
      adjustTimer net i n = (PatchTimer i n, Inl (Error ''Failed to adjust timer''))"
    by (simp add: adjustTimer_def settle_def Let_def)
  moreover have "net (PostRestart i) = Resolved r \<and> \<not> ok r \<longrightarrow>
      restartTimer net i = (PostRestart i, Inl (Error ''Failed to restart timer''))"
    by (simp add: restartTimer_def settle_def Let_def)
  moreover have "net (DeleteTimer i) = Resolved r \<and> \<not> ok r \<longrightarrow>
      deleteTimer net i = (DeleteTimer i, Inl (Error ''Failed to delete timer''))"
    by (simp add: deleteTimer_def settle_def Let_def)
  ultimately show ?thesis by blast
qed

theorem non_2xx_fails_witness:
  "snd (createTimer not_found \<lparr>name = [65], minutes = 5, seconds = 0\<rparr>) =
     Inl (Error ''Timer not found'') \<and>
   adjustTimer not_found [97] 1 = (PatchTimer [97] 1, Inl (Error ''Failed to adjust timer'')) \<and>
   restartTimer not_found [97] = (PostRestart [97], Inl (Error ''Failed to restart timer'')) \<and>
   deleteTimer not_found [97] = (DeleteTimer [97], Inl (Error ''Failed to delete timer''))"
  using non_2xx_fails [of not_found "\<lparr>name = [65], minutes = 5, seconds = 0\<rparr>"
      "\<lparr>http_status = 404, body = JsonBody (Some ''Timer not found'')\<rparr>" "''Timer not found''"
      "[97]" 1]
  by (simp add: not_found_def ok_def)


section \<open>The rendered cards\<close>

lemma keep_displayed_no_null:
  "ElemNull \<notin> set es \<Longrightarrow>
   keep_displayed es =
     Inr (filter (\<lambda>t. status t = Active \<or> status t = Completed) (timers_of es))"
proof (induction es)
  case Nil
  show ?case by simp
next
  case (Cons e es)
  then show ?case by (cases e) simp_all
qed

lemma keep_displayed_null: "ElemNull \<in> set es \<Longrightarrow> isl (keep_displayed es)"
proof (induction es)
  case Nil
  then show ?case by simp
next
  case (Cons e es)
  then show ?case by (cases e) (auto split: sum.splits)
qed

lemma timers_of_map: "timers_of (map ElemTimer ts) = ts"
  by (induction ts) simp_all

lemma keep_displayed_cards:
  "keep_displayed es = Inr cards \<Longrightarrow>
   cards = filter (\<lambda>t. status t = Active \<or> status t = Completed) (timers_of es)"
proof -
  assume r: "keep_displayed es = Inr cards"
  then have "ElemNull \<notin> set es"
    using keep_displayed_null [of es] by auto
  from keep_displayed_no_null [OF this] r show ?thesis by simp
qed

lemma displayTimers_timers:
  "displayTimers (JArray (map ElemTimer ts)) =
     Inr (filter (\<lambda>t. status t = Active \<or> status t = Completed) ts)"
proof -
  have "ElemNull \<notin> set (map ElemTimer ts)" by auto
  from keep_displayed_no_null [OF this] show ?thesis
    by (simp add: displayTimers_def timers_of_map)
qed

lemma displayTimers_cards:
  "displayTimers v = Inr cards \<Longrightarrow> \<forall>t \<in> set cards. status t = Active \<or> status t = Completed"
  by (cases v) (auto simp: displayTimers_def dest: keep_displayed_cards)

text \<open>
  Claim C9. For a list of timers held as state, the render does not throw and the
  rendered cards are exactly the timers whose status is active or completed, in the
  order of the list; these are the timers of the list that are not deleted, and
  whatever the state holds, no rendered card has the status deleted.
\<close>

theorem deleted_never_rendered:
  "displayTimers (JArray (map ElemTimer ts)) =
     Inr (filter (\<lambda>t. status t = Active \<or> status t = Completed) ts) \<and>
   (displayTimers (JArray (map ElemTimer ts)) = Inr cards \<longrightarrow>
      subseq cards ts \<and> set cards = {t \<in> set ts. status t \<noteq> Deleted}) \<and>
   (displayTimers v = Inr shown_cards \<longrightarrow> Deleted \<notin> status ` set shown_cards)"
proof -
  have ne: "(status t = Active \<or> status t = Completed) = (status t \<noteq> Deleted)" for t :: Timer
    by (cases "status t") simp_all
  have a: "displayTimers (JArray (map ElemTimer ts)) =
     Inr (filter (\<lambda>t. status t = Active \<or> status t = Completed) ts)"
    by (rule displayTimers_timers)
  have b: "subseq cards ts \<and> set cards = {t \<in> set ts. status t \<noteq> Deleted}"
    if "displayTimers (JArray (map ElemTimer ts)) = Inr cards"
    using that by (auto simp: a ne)
  have c: "Deleted \<notin> status ` set shown_cards" if "displayTimers v = Inr shown_cards"
    using displayTimers_cards [OF that] by auto
  from a b c show ?thesis by blast
qed

theorem deleted_never_rendered_witness:
  "displayTimers (JArray [ElemTimer timer_a, ElemTimer (timer_a\<lparr>status := Deleted\<rparr>),
      ElemTimer (timer_a\<lparr>status := Completed\<rparr>)]) =
     Inr [timer_a, timer_a\<lparr>status := Completed\<rparr>]"
  using deleted_never_rendered
      [of "[timer_a, timer_a\<lparr>status := Deleted\<rparr>, timer_a\<lparr>status := Completed\<rparr>]"
        "[timer_a, timer_a\<lparr>status := Completed\<rparr>]"
        "JArray [ElemTimer timer_a]" "[timer_a]"]
  by (simp add: timer_a_def)

lemma onmessage_forwards:
  "onmessage (Frame (Some ''state_update'') v) c st =
     (if truthy v then fold (\<lambda>handler. handler v) (handlers c) st else st)"
  by (simp add: onmessage_def)

text \<open>
  Claim C10 as it is stated fails on an array that holds \<open>null\<close>: the frame
  \<open>{"type": "state_update", "timers": [null]}\<close> is truthy, so the client hands it to
  the handlers and \<open>App\<close> stores it; it is an array, so \<open>filter\<close> runs, and its
  callback throws on \<open>null.status\<close>. The render throws instead of giving a list of
  cards.
\<close>

theorem malformed_payload_counterexample:
  "truthy (JArray [ElemNull]) \<and> isArray (JArray [ElemNull]) \<and>
   timers (onmessage (Frame (Some ''state_update'') (JArray [ElemNull]))
             (onMessage setTimers new_client) new_App) = JArray [ElemNull] \<and>
   displayTimers
     (timers (onmessage (Frame (Some ''state_update'') (JArray [ElemNull]))
                (onMessage setTimers new_client) new_App)) =
     Inl (PlatformError null_status_message)"
  by (simp add: onmessage_def onMessage_def new_client_def setTimers_def displayTimers_def)

text \<open>
  Claim C10, as the code has it. The client hands every truthy \<open>timers\<close> field of a
  \<open>state_update\<close> frame to the handlers, array or not, so the handler of \<open>App\<close>
  stores it as the \<open>timers\<close> state. For every value of that state that is not an
  array the render gives no card and does not throw; for an array none of whose
  elements is \<open>null\<close> the render gives the active and completed timers among its
  elements, in their order.
\<close>

theorem malformed_payload:
  "(truthy v \<longrightarrow>
      onmessage (Frame (Some ''state_update'') v) c st =
        fold (\<lambda>handler. handler v) (handlers c) st \<and>
      onmessage (Frame (Some ''state_update'') v) (onMessage setTimers new_client) a =
        a\<lparr>timers := v\<rparr>) \<and>
   (v = JArray es \<and> ElemNull \<notin> set es \<longrightarrow>
      displayTimers v =
        Inr (filter (\<lambda>t. status t = Active \<or> status t = Completed) (timers_of es))) \<and>
   (\<not> isArray v \<longrightarrow> displayTimers v = Inr []) \<and>
   (truthy v \<and> \<not> isArray v \<longrightarrow>
      displayTimers
        (timers (onmessage (Frame (Some ''state_update'') v) (onMessage setTimers new_client) a))
        = Inr [])"
proof -
  have fwd: "onmessage (Frame (Some ''state_update'') v) (onMessage setTimers new_client) a =
        a\<lparr>timers := v\<rparr>" if "truthy v"
    using that by (simp add: onmessage_def onMessage_def new_client_def setTimers_def)
  have na: "displayTimers v = Inr []" if "\<not> isArray v"
    using that by (cases v) (simp_all add: displayTimers_def)
  have arr: "displayTimers v =
      Inr (filter (\<lambda>t. status t = Active \<or> status t = Completed) (timers_of es))"
    if "v = JArray es" "ElemNull \<notin> set es"
    using that by (simp add: displayTimers_def keep_displayed_no_null)
  from fwd na arr show ?thesis by (simp add: onmessage_forwards)
qed

theorem malformed_payload_witness:
  "onmessage (Frame (Some ''state_update'') (JStr ''oops'')) (onMessage setTimers new_client)
     new_App = new_App\<lparr>timers := JStr ''oops''\<rparr> \<and>
   displayTimers (JStr ''oops'') = Inr [] \<and>
   displayTimers (JArray [ElemOther, ElemTimer timer_a, ElemTimer (timer_a\<lparr>status := Deleted\<rparr>)])
     = Inr [timer_a]"
  using malformed_payload [of "JStr ''oops''" "onMessage setTimers new_client" new_App new_App "[]"]
    malformed_payload
      [of "JArray [ElemOther, ElemTimer timer_a, ElemTimer (timer_a\<lparr>status := Deleted\<rparr>)]"
        "onMessage setTimers new_client" new_App new_App
        "[ElemOther, ElemTimer timer_a, ElemTimer (timer_a\<lparr>status := Deleted\<rparr>)]"]
  by (simp add: timer_a_def onMessage_def new_client_def setTimers_def)

end
